theory Spec2Isabelle
  imports Complex_Main
begin

section \<open>Fourier series visualizer: the numeric core of App.jsx\<close>

text \<open>
  The widget computes with JavaScript Numbers. They are modelled here by the real
  numbers, the data model the specification itself uses ("real"): \<open>Math.PI\<close> is
  \<^term>\<open>pi\<close>, \<open>Math.sin\<close> is \<^term>\<open>sin\<close>, and the arithmetic operators are the exact
  ones. The non-finite Numbers (NaN and the infinities) have no counterpart among the
  reals; in this program they arise only from a division by zero, that is for a harmonic
  number \<open>0\<close> or for a degenerate view range \<open>yMin = yMax\<close>, and the theorems
  about those functions carry the matching precondition. Harmonic numbers and array
  indices are integers.
\<close>

subsection \<open>Number primitives\<close>

text \<open>The remainder operator \<open>%\<close> truncates the quotient toward zero, so that the
  result has the sign of the dividend.\<close>

definition trunc :: "real \<Rightarrow> int" where
  "trunc r = (if 0 \<le> r then \<lfloor>r\<rfloor> else \<lceil>r\<rceil>)"

definition js_rem :: "real \<Rightarrow> real \<Rightarrow> real" where
  "js_rem x m = x - m * of_int (trunc (x / m))"

definition js_rem_int :: "int \<Rightarrow> int \<Rightarrow> int" where
  "js_rem_int a b = sgn a * (\<bar>a\<bar> mod \<bar>b\<bar>)"

text \<open>\<open>Math.round\<close> rounds to the nearest integer, a tie going up.\<close>

definition Math_round :: "real \<Rightarrow> real" where
  "Math_round x = of_int \<lfloor>x + 1 / 2\<rfloor>"

text \<open>\<open>Math.pow(-1, k)\<close> at an integer exponent.\<close>

definition Math_pow :: "real \<Rightarrow> int \<Rightarrow> real" where
  "Math_pow b k = b powi k"

subsection \<open>The waveform table \<open>WAVE_TYPES\<close>\<close>

datatype wave_key = Square | Sawtooth | Triangle

text \<open>The phase reduction written out in each of the three evaluators:
  \<open>((x % (2 * Math.PI)) + 2 * Math.PI) % (2 * Math.PI)\<close>. It is read here in exact
  real arithmetic. The remainders are exact in the program too, but the sum in between
  rounds there, so that an equation between evaluations at two different arguments
  (such as \<open>x\<close> and \<open>x + 2 pi\<close>) does not carry over from the reals to the program; what
  is proved below of the evaluators are bounds and values at given phases.\<close>

definition phase :: "real \<Rightarrow> real" where
  "phase x = js_rem (js_rem x (2 * pi) + 2 * pi) (2 * pi)"

definition square_coefficients :: "int \<Rightarrow> real" where
  "square_coefficients n = (if js_rem_int n 2 = 1 then 4 / (pi * of_int n) else 0)"

definition square_fn :: "real \<Rightarrow> real" where
  "square_fn x = (if phase x < pi then 1 else - 1)"

definition sawtooth_coefficients :: "int \<Rightarrow> real" where
  "sawtooth_coefficients n = (2 / (pi * of_int n)) * Math_pow (- 1) (n + 1)"

definition sawtooth_fn :: "real \<Rightarrow> real" where
  "sawtooth_fn x = (let p = phase x in (p / pi) - 1)"

text \<open>In the triangle's coefficient \<open>k = (n - 1) / 2\<close> is computed only for odd
  \<open>n\<close>, where the quotient is exact.\<close>

definition triangle_coefficients :: "int \<Rightarrow> real" where
  "triangle_coefficients n =
     (if js_rem_int n 2 = 0 then 0
      else let k = (n - 1) div 2
           in (8 / (pi * pi * of_int n * of_int n)) * Math_pow (- 1) k)"

definition triangle_fn :: "real \<Rightarrow> real" where
  "triangle_fn x =
     (let p = phase x
      in if p < pi / 2 then (2 * p) / pi
         else if p < (3 * pi) / 2 then 2 - (2 * p) / pi
         else (2 * p) / pi - 4)"

text \<open>An entry of the table holds a display name, the coefficient function and the
  evaluator. (Its \<open>formula\<close> string is shown to the user and never evaluated; it is
  left out.)\<close>

record waveform =
  name :: string
  coefficients :: "int \<Rightarrow> real"
  fn :: "real \<Rightarrow> real"

fun WAVE_TYPES :: "wave_key \<Rightarrow> waveform" where
  "WAVE_TYPES Square =
     \<lparr>name = ''Square Wave'', coefficients = square_coefficients, fn = square_fn\<rparr>"
| "WAVE_TYPES Sawtooth =
     \<lparr>name = ''Sawtooth Wave'', coefficients = sawtooth_coefficients, fn = sawtooth_fn\<rparr>"
| "WAVE_TYPES Triangle =
     \<lparr>name = ''Triangle Wave'', coefficients = triangle_coefficients, fn = triangle_fn\<rparr>"

subsection \<open>Sampler: the shared grid \<open>X_VALUES\<close>\<close>

definition NUM_POINTS :: nat where
  "NUM_POINTS = 500"

text \<open>The loop \<open>for (let i = 0; i <= NUM_POINTS; i++) xs.push(...)\<close>, with the array
  built so far as accumulator.\<close>

function generateXValues_loop :: "nat \<Rightarrow> real list \<Rightarrow> real list" where
  "generateXValues_loop i xs =
     (if i \<le> NUM_POINTS
      then generateXValues_loop (i + 1) (xs @ [(real i / real NUM_POINTS) * 2 * pi])
      else xs)"
  by pat_completeness auto
termination
  by (relation "measure (\<lambda>(i, xs). NUM_POINTS + 1 - i)") auto

declare generateXValues_loop.simps [simp del]

definition generateXValues :: "real list" where
  "generateXValues = generateXValues_loop 0 []"

definition X_VALUES :: "real list" where
  "X_VALUES = generateXValues"

subsection \<open>Strings\<close>


definition pi_letter :: string where
  "pi_letter = [CHR 0xCF, CHR 0x80]"





subsection \<open>Array helpers\<close>



subsection \<open>The chart component \<open>Graph\<close>\<close>

record point =
  pt_x :: real
  pt_y :: real

record dataset =
  color :: "string option"
  width :: real
  opacity :: "real option"
  dash :: "string option"
  data :: "point list"


record padding_box =
  pad_top :: real
  pad_right :: real
  pad_bottom :: real
  pad_left :: real

definition padding :: padding_box where
  "padding = \<lparr>pad_top = 40, pad_right = 24, pad_bottom = 44, pad_left = 52\<rparr>"

definition plotW :: "real \<Rightarrow> real" where
  "plotW w = w - pad_left padding - pad_right padding"

definition plotH :: "real \<Rightarrow> real" where
  "plotH h = h - pad_top padding - pad_bottom padding"

definition toSVGX :: "real \<Rightarrow> real \<Rightarrow> real" where
  "toSVGX w x = pad_left padding + (x / (2 * pi)) * plotW w"

definition toSVGY :: "real \<Rightarrow> real \<Rightarrow> real \<Rightarrow> real \<Rightarrow> real" where
  "toSVGY h yMin yMax y = pad_top padding + ((yMax - y) / (yMax - yMin)) * plotH h"

definition xTicks :: "real list" where
  "xTicks = [0, pi / 2, pi, (3 * pi) / 2, 2 * pi]"

definition xLabels :: "string list" where
  "xLabels = [''0'', pi_letter @ ''/2'', pi_letter, ''3'' @ pi_letter @ ''/2'', ''2'' @ pi_letter]"

text \<open>The loop \<open>for (let v = yMin; v <= yMax; v += 0.5) yTicks.push(Math.round(v * 10) / 10)\<close>.\<close>

function yTicks_loop :: "real \<Rightarrow> real \<Rightarrow> real list \<Rightarrow> real list" where
  "yTicks_loop v yMax ticks =
     (if v \<le> yMax
      then yTicks_loop (v + 0.5) yMax (ticks @ [Math_round (v * 10) / 10])
      else ticks)"
  by pat_completeness auto
termination
proof (relation "measure (\<lambda>(v, yMax, ticks). nat (\<lfloor>(yMax - v) * 2\<rfloor> + 1))")
  show "wf (measure (\<lambda>(v, yMax, ticks). nat (\<lfloor>(yMax - v) * 2\<rfloor> + 1)))"
    by simp
next
  fix v yMax :: real and ticks :: "real list"
  assume le: "v \<le> yMax"
  have "(yMax - (v + 0.5)) * 2 = (yMax - v) * 2 - 1"
    by (simp add: algebra_simps)
  then have "\<lfloor>(yMax - (v + 0.5)) * 2\<rfloor> = \<lfloor>(yMax - v) * 2\<rfloor> - 1"
    by (simp only: floor_diff_one)
  moreover from le have "0 \<le> \<lfloor>(yMax - v) * 2\<rfloor>"
    by simp
  ultimately show "((v + 0.5, yMax, ticks @ [Math_round (v * 10) / 10]), (v, yMax, ticks))
      \<in> measure (\<lambda>(v, yMax, ticks). nat (\<lfloor>(yMax - v) * 2\<rfloor> + 1))"
    by simp
qed

declare yTicks_loop.simps [simp del]

definition yTicks :: "real \<Rightarrow> real \<Rightarrow> real list" where
  "yTicks yMin yMax = yTicks_loop yMin yMax []"

text \<open>One horizontal gridline per tick; the ticks that get a label are those passing
  \<open>filter((v) => v === Math.round(v))\<close>.\<close>

definition yGridlines :: "real \<Rightarrow> real \<Rightarrow> real \<Rightarrow> real list" where
  "yGridlines h yMin yMax = map (\<lambda>yv. toSVGY h yMin yMax yv) (yTicks yMin yMax)"

definition yLabelTicks :: "real \<Rightarrow> real \<Rightarrow> real list" where
  "yLabelTicks yMin yMax = filter (\<lambda>v. v = Math_round v) (yTicks yMin yMax)"

text \<open>The pixel coordinates of a data point in the path builder:
  \<open>sx = toSVGX(pt.x)\<close> and \<open>sy = toSVGY(Math.max(yMin, Math.min(yMax, pt.y)))\<close>.\<close>

definition path_sx :: "real \<Rightarrow> point \<Rightarrow> real" where
  "path_sx w pt = toSVGX w (pt_x pt)"

definition path_sy :: "real \<Rightarrow> real \<Rightarrow> real \<Rightarrow> point \<Rightarrow> real" where
  "path_sy h yMin yMax pt = toSVGY h yMin yMax (max yMin (min yMax (pt_y pt)))"

subsection \<open>The component \<open>FourierVisualizer\<close>: state and transitions\<close>



record state =
  amplitudes :: "real list"
  waveType :: wave_key

definition initial_state :: state where
  "initial_state = \<lparr>amplitudes = [0, 0, 0, 0, 0], waveType = Square\<rparr>"

definition wave :: "state \<Rightarrow> waveform" where
  "wave st = WAVE_TYPES (waveType st)"

definition setWaveType :: "wave_key \<Rightarrow> state \<Rightarrow> state" where
  "setWaveType key st = st\<lparr>waveType := key\<rparr>"


definition showIdeal :: "state \<Rightarrow> state" where
  "showIdeal st =
     st\<lparr>amplitudes :=
          map (\<lambda>n. let c = coefficients (wave st) n
                   in Math_round (min 2 (max (- 2) c) * 1000) / 1000)
              [1, 2, 3, 4, 5]\<rparr>"




subsection \<open>Derived data\<close>




text \<open>The body of \<open>amplitudes.forEach((amp, i) => { y += amp * Math.sin((i + 1) * x) })\<close>,
  with the running index and the running value of \<open>y\<close>.\<close>

fun sum_forEach :: "real \<Rightarrow> real list \<Rightarrow> nat \<Rightarrow> real \<Rightarrow> real" where
  "sum_forEach x [] i y = y"
| "sum_forEach x (amp # amps) i y =
     sum_forEach x amps (i + 1) (y + amp * sin (real (i + 1) * x))"

definition sumData :: "real list \<Rightarrow> point list" where
  "sumData amps = map (\<lambda>x. \<lparr>pt_x = x, pt_y = sum_forEach x amps 0 0\<rparr>) X_VALUES"

definition targetData :: "waveform \<Rightarrow> point list" where
  "targetData wv = map (\<lambda>x. \<lparr>pt_x = x, pt_y = fn wv x\<rparr>) X_VALUES"

text \<open>The \<open>datasets\<close> handed to the second chart, "Sum of Harmonics".\<close>

definition sumChartDatasets :: "real list \<Rightarrow> dataset list" where
  "sumChartDatasets amps =
     [\<lparr>color = Some ''#58A6FF'', width = 2.5, opacity = None, dash = None,
       data = sumData amps\<rparr>]"

subsection \<open>The equation string\<close>




subsection \<open>The equation string as the specification words it\<close>



section \<open>Fourier coefficients\<close>

lemma harmonic_cases:
  fixes n :: int
  assumes "1 \<le> n" "n \<le> 5"
  shows "n = 1 \<or> n = 2 \<or> n = 3 \<or> n = 4 \<or> n = 5"
  using assms by presburger

lemma Math_pow_minus_one:
  "Math_pow (- 1) 0 = 1" "Math_pow (- 1) 1 = - 1" "Math_pow (- 1) 2 = 1"
  "Math_pow (- 1) 3 = - 1" "Math_pow (- 1) 4 = 1" "Math_pow (- 1) 5 = - 1"
  "Math_pow (- 1) 6 = 1"
  by (simp_all add: Math_pow_def power_int_def)

lemma js_rem_int_two:
  "js_rem_int 1 2 = 1" "js_rem_int 2 2 = 0" "js_rem_int 3 2 = 1"
  "js_rem_int 4 2 = 0" "js_rem_int 5 2 = 1"
  by (simp_all add: js_rem_int_def)

text \<open>
  Claim C2. For every harmonic \<open>n\<close> from 1 to 5: the square wave's coefficient is
  \<open>0\<close> for even \<open>n\<close> and \<open>4/(pi n)\<close> for odd \<open>n\<close>; the sawtooth's coefficient is
  \<open>(2/(pi n)) (-1)^(n+1)\<close>, positive at \<open>n = 1\<close>; the triangle's coefficient is
  \<open>0\<close> for even \<open>n\<close> and, for odd \<open>n = 2k+1\<close>, has magnitude \<open>8/(pi^2 n^2)\<close> and
  sign \<open>(-1)^k\<close>: positive at 1, negative at 3, positive at 5.
\<close>

theorem coefficients_closed_form:
  fixes n :: int
  assumes "1 \<le> n" and "n \<le> 5"
  shows "coefficients (WAVE_TYPES Square) n = (if even n then 0 else 4 / (pi * of_int n))
    \<and> coefficients (WAVE_TYPES Sawtooth) n = (2 / (pi * of_int n)) * (- 1) ^ (nat n + 1)
    \<and> (even n \<longrightarrow> coefficients (WAVE_TYPES Triangle) n = 0)
    \<and> (\<forall>k::nat. n = 2 * int k + 1 \<longrightarrow>
           coefficients (WAVE_TYPES Triangle) n = (- 1) ^ k * (8 / (pi\<^sup>2 * (of_int n)\<^sup>2))
           \<and> \<bar>coefficients (WAVE_TYPES Triangle) n\<bar> = 8 / (pi\<^sup>2 * (of_int n)\<^sup>2))
    \<and> (n = 1 \<longrightarrow> 0 < coefficients (WAVE_TYPES Sawtooth) n)
    \<and> (n = 1 \<or> n = 5 \<longrightarrow> 0 < coefficients (WAVE_TYPES Triangle) n)
    \<and> (n = 3 \<longrightarrow> coefficients (WAVE_TYPES Triangle) n < 0)"
proof -
  from assms have c: "n = 1 \<or> n = 2 \<or> n = 3 \<or> n = 4 \<or> n = 5"
    by (rule harmonic_cases)
  have sq: "coefficients (WAVE_TYPES Square) n = (if even n then 0 else 4 / (pi * of_int n))"
    using c by (auto simp: square_coefficients_def js_rem_int_two)
  have sw: "coefficients (WAVE_TYPES Sawtooth) n = (2 / (pi * of_int n)) * (- 1) ^ (nat n + 1)"
    using c by (auto simp: sawtooth_coefficients_def Math_pow_minus_one)
  have te: "even n \<longrightarrow> coefficients (WAVE_TYPES Triangle) n = 0"
    using c by (auto simp: triangle_coefficients_def js_rem_int_two)
  have tr: "coefficients (WAVE_TYPES Triangle) n = (- 1) ^ k * (8 / (pi\<^sup>2 * (of_int n)\<^sup>2))
           \<and> \<bar>coefficients (WAVE_TYPES Triangle) n\<bar> = 8 / (pi\<^sup>2 * (of_int n)\<^sup>2)"
    if "n = 2 * int k + 1" for k :: nat
  proof -
    from that c have "k = 0 \<or> k = 1 \<or> k = 2"
      by presburger
    then show ?thesis using that
      by (auto simp: triangle_coefficients_def js_rem_int_two Math_pow_minus_one
          power2_eq_square)
  qed
  have sg: "(n = 1 \<longrightarrow> 0 < coefficients (WAVE_TYPES Sawtooth) n)
    \<and> (n = 1 \<or> n = 5 \<longrightarrow> 0 < coefficients (WAVE_TYPES Triangle) n)
    \<and> (n = 3 \<longrightarrow> coefficients (WAVE_TYPES Triangle) n < 0)"
    by (auto simp: sawtooth_coefficients_def triangle_coefficients_def js_rem_int_two
        Math_pow_minus_one)
  from sq sw te tr sg show ?thesis
    by blast
qed

theorem coefficients_closed_form_witness:
  "(1::int) \<le> 3 \<and> (3::int) \<le> 5
   \<and> coefficients (WAVE_TYPES Square) 3 = 4 / (pi * 3)
   \<and> coefficients (WAVE_TYPES Sawtooth) 3 = 2 / (pi * 3)
   \<and> coefficients (WAVE_TYPES Triangle) 3 = - (8 / (pi\<^sup>2 * 9))
   \<and> coefficients (WAVE_TYPES Triangle) 3 < 0"
proof -
  have h: "(1::int) \<le> 3" "(3::int) \<le> 5"
    by simp_all
  note cf = coefficients_closed_form [OF h]
  from cf have "(3::int) = 2 * int 1 + 1 \<longrightarrow>
      coefficients (WAVE_TYPES Triangle) 3 = (- 1) ^ (1::nat) * (8 / (pi\<^sup>2 * (of_int 3)\<^sup>2))"
    by blast
  then have t: "coefficients (WAVE_TYPES Triangle) 3 = - (8 / (pi\<^sup>2 * 9))"
    by simp
  from cf have s: "coefficients (WAVE_TYPES Square) 3 = 4 / (pi * 3)"
    and w: "coefficients (WAVE_TYPES Sawtooth) 3 = 2 / (pi * 3)"
    and g: "coefficients (WAVE_TYPES Triangle) 3 < 0"
    by simp_all
  from h s w t g show ?thesis
    by blast
qed

section \<open>Phase reduction and the evaluators\<close>

lemma floor_mod_bounds:
  fixes x m :: real
  assumes "0 < m"
  shows "0 \<le> x - m * of_int \<lfloor>x / m\<rfloor>" and "x - m * of_int \<lfloor>x / m\<rfloor> < m"
proof -
  have "of_int \<lfloor>x / m\<rfloor> \<le> x / m" by (rule of_int_floor_le)
  then have "of_int \<lfloor>x / m\<rfloor> * m \<le> x"
    using assms by (simp only: pos_le_divide_eq)
  then show "0 \<le> x - m * of_int \<lfloor>x / m\<rfloor>" by (simp add: mult.commute)
  have "x / m < of_int \<lfloor>x / m\<rfloor> + 1" by linarith
  then have "x < (of_int \<lfloor>x / m\<rfloor> + 1) * m"
    using assms by (simp only: pos_divide_less_eq)
  then show "x - m * of_int \<lfloor>x / m\<rfloor> < m" by (simp add: algebra_simps)
qed

lemma js_rem_small:
  fixes y m :: real
  assumes "0 < m" "0 \<le> y" "y < m"
  shows "js_rem y m = y"
proof -
  have "0 \<le> y / m" "y / m < 1" using assms by simp_all
  then have "\<lfloor>y / m\<rfloor> = 0" by (simp add: floor_eq_iff)
  then show ?thesis using assms \<open>0 \<le> y / m\<close> by (simp add: js_rem_def trunc_def)
qed

lemma js_rem_shift:
  fixes y m :: real
  assumes "0 < m" "m \<le> y" "y < 2 * m"
  shows "js_rem y m = y - m"
proof -
  have "1 \<le> y / m" "y / m < 2" using assms by (simp_all add: pos_le_divide_eq pos_divide_less_eq)
  then have "\<lfloor>y / m\<rfloor> = 1" by (simp add: floor_eq_iff)
  then show ?thesis using assms \<open>1 \<le> y / m\<close> by (simp add: js_rem_def trunc_def)
qed

lemma js_rem_twice:
  fixes x m :: real
  assumes m: "0 < m"
  shows "js_rem (js_rem x m + m) m = x - m * of_int \<lfloor>x / m\<rfloor>"
proof (cases "0 \<le> x / m")
  case True
  then have r: "js_rem x m = x - m * of_int \<lfloor>x / m\<rfloor>"
    by (simp add: js_rem_def trunc_def)
  from floor_mod_bounds [OF m, of x]
  have "m \<le> js_rem x m + m" "js_rem x m + m < 2 * m" unfolding r by simp_all
  from js_rem_shift [OF m this] show ?thesis unfolding r by simp
next
  case False
  then have r: "js_rem x m = x - m * of_int \<lceil>x / m\<rceil>"
    by (simp add: js_rem_def trunc_def)
  show ?thesis
  proof (cases "x / m = of_int \<lfloor>x / m\<rfloor>")
    case True
    then have fc: "\<lceil>x / m\<rceil> = \<lfloor>x / m\<rfloor>" by (simp add: ceiling_altdef)
    from True have "x = of_int \<lfloor>x / m\<rfloor> * m" using m by (simp add: field_simps)
    then have z: "x - m * of_int \<lfloor>x / m\<rfloor> = 0" by (simp add: mult.commute)
    have "js_rem (js_rem x m + m) m = js_rem m m" unfolding r fc z by simp
    also have "\<dots> = 0" using m by (simp add: js_rem_def trunc_def)
    finally show ?thesis using z by simp
  next
    case False
    then have fc: "\<lceil>x / m\<rceil> = \<lfloor>x / m\<rfloor> + 1" by (simp add: ceiling_altdef)
    have ne: "x - m * of_int \<lfloor>x / m\<rfloor> \<noteq> 0"
    proof
      assume "x - m * of_int \<lfloor>x / m\<rfloor> = 0"
      then have "x = of_int \<lfloor>x / m\<rfloor> * m" by (simp add: mult.commute)
      then have "x / m = of_int \<lfloor>x / m\<rfloor>" using m by (simp add: field_simps)
      with False show False by simp
    qed
    have e: "js_rem x m + m = x - m * of_int \<lfloor>x / m\<rfloor>"
      unfolding r fc by (simp add: algebra_simps)
    from floor_mod_bounds [OF m, of x] ne
    have "0 \<le> js_rem x m + m" "js_rem x m + m < m" unfolding e by simp_all
    from js_rem_small [OF m this] show ?thesis unfolding e .
  qed
qed

lemma phase_floor: "phase x = x - 2 * pi * of_int \<lfloor>x / (2 * pi)\<rfloor>"
  unfolding phase_def by (rule js_rem_twice) simp

lemma phase_range: "0 \<le> phase x \<and> phase x < 2 * pi"
  using floor_mod_bounds [of "2 * pi" x] by (simp add: phase_floor)

lemma phase_id:
  assumes "0 \<le> x" "x < 2 * pi"
  shows "phase x = x"
proof -
  have "0 \<le> x / (2 * pi)" "x / (2 * pi) < 1" using assms by simp_all
  then have "\<lfloor>x / (2 * pi)\<rfloor> = 0" by (simp add: floor_eq_iff)
  then show ?thesis by (simp add: phase_floor)
qed

lemma square_fn_values: "square_fn x = 1 \<or> square_fn x = - 1"
  by (simp add: square_fn_def)

lemma sawtooth_fn_range: "- 1 \<le> sawtooth_fn x \<and> sawtooth_fn x < 1"
proof -
  from phase_range [of x] have "0 \<le> phase x / pi" "phase x / pi < 2"
    by (simp_all add: pos_divide_less_eq)
  then show ?thesis by (simp add: sawtooth_fn_def)
qed

lemma triangle_piece:
  fixes p :: real
  assumes "0 \<le> p" "p < 2 * pi"
  shows "- 1 \<le> (if p < pi / 2 then (2 * p) / pi
         else if p < (3 * pi) / 2 then 2 - (2 * p) / pi
         else (2 * p) / pi - 4)
     \<and> (if p < pi / 2 then (2 * p) / pi
         else if p < (3 * pi) / 2 then 2 - (2 * p) / pi
         else (2 * p) / pi - 4) \<le> 1"
  using assms by (auto simp: field_simps)

lemma triangle_fn_range: "- 1 \<le> triangle_fn x \<and> triangle_fn x \<le> 1"
  unfolding triangle_fn_def Let_def
  using phase_range [of x] by (intro triangle_piece) simp_all

lemma fn_in_range: "- 1 \<le> fn (WAVE_TYPES w) x \<and> fn (WAVE_TYPES w) x \<le> 1"
proof (cases w)
  case Square
  with square_fn_values [of x] show ?thesis by auto
next
  case Sawtooth
  with sawtooth_fn_range [of x] show ?thesis by simp
next
  case Triangle
  with triangle_fn_range [of x] show ?thesis by simp
qed

lemma phase_at:
  "phase 0 = 0" "phase pi = pi" "phase (pi / 2) = pi / 2" "phase (3 * pi / 2) = 3 * pi / 2"
  by (simp_all add: phase_id)

lemma endpoint_values:
  "square_fn 0 = 1" "square_fn pi = - 1" "sawtooth_fn 0 = - 1"
  "triangle_fn (pi / 2) = 1" "triangle_fn (3 * pi / 2) = - 1"
  by (simp_all add: square_fn_def sawtooth_fn_def triangle_fn_def phase_at)

lemma sawtooth_fn_onto:
  assumes "- 1 \<le> y" "y < 1"
  shows "sawtooth_fn ((y + 1) * pi) = y"
proof -
  from assms have "0 \<le> (y + 1) * pi" "(y + 1) * pi < 2 * pi" by simp_all
  then have "phase ((y + 1) * pi) = (y + 1) * pi" by (rule phase_id)
  then show ?thesis by (simp add: sawtooth_fn_def)
qed

text \<open>
  Claim C4, as amended. Every output of the three evaluators lies in \<open>[-1, 1]\<close> and each
  of them attains \<open>-1\<close>. The square and the triangle wave attain \<open>+1\<close> as well. The
  sawtooth stays strictly below \<open>+1\<close>: it takes exactly the values of the half-open
  interval from \<open>-1\<close> up to, but not including, \<open>1\<close>.
\<close>

theorem evaluate_range:
  "(\<forall>x. - 1 \<le> fn (WAVE_TYPES w) x \<and> fn (WAVE_TYPES w) x \<le> 1)
   \<and> (\<exists>x. fn (WAVE_TYPES w) x = - 1)
   \<and> (w \<noteq> Sawtooth \<longrightarrow> (\<exists>x. fn (WAVE_TYPES w) x = 1))
   \<and> (\<forall>x. fn (WAVE_TYPES Sawtooth) x < 1)
   \<and> (\<forall>y. - 1 \<le> y \<and> y < 1 \<longrightarrow> (\<exists>x. fn (WAVE_TYPES Sawtooth) x = y))"
proof -
  have a: "\<forall>x. - 1 \<le> fn (WAVE_TYPES w) x \<and> fn (WAVE_TYPES w) x \<le> 1"
    using fn_in_range by blast
  have b: "\<exists>x. fn (WAVE_TYPES w) x = - 1"
    by (cases w) (auto intro: endpoint_values)
  have c: "w \<noteq> Sawtooth \<longrightarrow> (\<exists>x. fn (WAVE_TYPES w) x = 1)"
    by (cases w) (auto intro: endpoint_values)
  have d: "\<forall>x. fn (WAVE_TYPES Sawtooth) x < 1"
    using sawtooth_fn_range by simp
  have e: "\<forall>y. - 1 \<le> y \<and> y < 1 \<longrightarrow> (\<exists>x. fn (WAVE_TYPES Sawtooth) x = y)"
    using sawtooth_fn_onto by auto
  from a b c d e show ?thesis by blast
qed

theorem evaluate_range_witness:
  "Square \<noteq> Sawtooth \<and> (\<exists>x. fn (WAVE_TYPES Square) x = 1)
   \<and> (\<exists>x. fn (WAVE_TYPES Square) x = - 1)
   \<and> - 1 \<le> (0::real) \<and> (0::real) < 1 \<and> (\<exists>x. fn (WAVE_TYPES Sawtooth) x = 0)"
proof -
  note t = evaluate_range [of Square]
  from t have a: "\<exists>x. fn (WAVE_TYPES Square) x = 1" by simp
  from t have b: "\<exists>x. fn (WAVE_TYPES Square) x = - 1" by blast
  from t have "- 1 \<le> (0::real) \<and> (0::real) < 1 \<longrightarrow> (\<exists>x. fn (WAVE_TYPES Sawtooth) x = 0)"
    by blast
  then have c: "\<exists>x. fn (WAVE_TYPES Sawtooth) x = 0" by simp
  from a b c show ?thesis by simp
qed

text \<open>Before the amendment Claim C4 had the sawtooth attain \<open>+1\<close> for some real
  \<open>x\<close>; it does so for none.\<close>

theorem sawtooth_never_one: "\<not> (\<exists>x. fn (WAVE_TYPES Sawtooth) x = 1)"
proof
  assume "\<exists>x. fn (WAVE_TYPES Sawtooth) x = 1"
  then obtain x where "sawtooth_fn x = 1" by auto
  with sawtooth_fn_range [of x] show False by simp
qed

section \<open>Ideal coefficients\<close>

lemma sum_lessThan_8:
  fixes f :: "nat \<Rightarrow> real"
  shows "(\<Sum>m<8. f m) = f 0 + f 1 + f 2 + f 3 + f 4 + f 5 + f 6 + f 7"
  by (simp add: eval_nat_numeral)

lemma sin_coeff_values:
  "sin_coeff (Suc 0) = 1" "sin_coeff 2 = 0" "sin_coeff 3 = - 1 / 6" "sin_coeff 4 = 0"
  "sin_coeff 5 = 1 / 120" "sin_coeff 6 = 0" "sin_coeff 7 = - 1 / 5040"
  by (simp_all add: sin_coeff_def fact_numeral)

lemma sin_taylor_8:
  fixes x :: real
  shows "\<bar>sin x - (x - x ^ 3 / 6 + x ^ 5 / 120 - x ^ 7 / 5040)\<bar> \<le> \<bar>x\<bar> ^ 8 / 40320"
proof -
  have s: "(\<Sum>m<8. sin_coeff m * x ^ m) = x - x ^ 3 / 6 + x ^ 5 / 120 - x ^ 7 / 5040"
    unfolding sum_lessThan_8 by (simp add: sin_coeff_values)
  have f: "inverse (fact 8) * \<bar>x\<bar> ^ 8 = \<bar>x\<bar> ^ 8 / 40320"
    by (simp add: fact_numeral)
  from Maclaurin_sin_bound [of x 8] show ?thesis
    unfolding s f .
qed

lemma pi_lower: "3141 / 1000 < pi"
proof (rule ccontr)
  assume "\<not> 3141 / 1000 < pi"
  then have le: "pi / 6 \<le> 1047 / 2000" by simp
  have "1047 / 2000 \<le> pi / 2" using pi_ge_two by simp
  with le have "sin (pi / 6) \<le> sin (1047 / 2000)"
    by (intro sin_monotone_2pi_le) simp_all
  then have h: "1 / 2 \<le> sin (1047 / 2000 :: real)" by (simp add: sin_30)
  define a :: real where "a = 1047 / 2000"
  have t: "(a - a ^ 3 / 6 + a ^ 5 / 120 - a ^ 7 / 5040) + \<bar>a\<bar> ^ 8 / 40320 < 1 / 2"
    unfolding a_def by (simp add: power_divide)
  from sin_taylor_8 [of a] t have "sin a < 1 / 2"
    by linarith
  with h show False by (simp add: a_def)
qed

lemma pi_upper: "pi < 31434 / 10000"
proof (rule ccontr)
  assume "\<not> pi < 31434 / 10000"
  then have le: "5239 / 10000 \<le> pi / 6" by simp
  have "sin (5239 / 10000) \<le> sin (pi / 6)"
    using le by (intro sin_monotone_2pi_le) simp_all
  then have h: "sin (5239 / 10000 :: real) \<le> 1 / 2" by (simp add: sin_30)
  define b :: real where "b = 5239 / 10000"
  have t: "1 / 2 < (b - b ^ 3 / 6 + b ^ 5 / 120 - b ^ 7 / 5040) - \<bar>b\<bar> ^ 8 / 40320"
    unfolding b_def by (simp add: power_divide)
  from sin_taylor_8 [of b] t have "1 / 2 < sin b"
    by linarith
  with h show False by (simp add: b_def)
qed

lemma ideal_round:
  fixes c :: real and k :: int
  assumes "- 2 \<le> c" "c \<le> 2" "of_int k - 1 / 2 \<le> c * 1000" "c * 1000 < of_int k + 1 / 2"
  shows "Math_round (min 2 (max (- 2) c) * 1000) / 1000 = of_int k / 1000"
proof -
  from assms(1,2) have m: "min 2 (max (- 2) c) = c" by simp
  from assms(3,4) have "\<lfloor>c * 1000 + 1 / 2\<rfloor> = k"
    by (intro floor_unique) simp_all
  with m show ?thesis by (simp add: Math_round_def)
qed

lemma four_over_pi:
  "1272.5 \<le> 4 / pi * 1000" "4 / pi * 1000 < 1273.5"
  "423.5 \<le> 4 / (pi * 3) * 1000" "4 / (pi * 3) * 1000 < 424.5"
  "254.5 \<le> 4 / (pi * 5) * 1000" "4 / (pi * 5) * 1000 < 255.5"
  using pi_lower pi_upper by (simp_all add: field_simps)

lemma square_ideal_values:
  "Math_round (min 2 (max (- 2) (square_coefficients 1)) * 1000) / 1000 = 1.273"
  "Math_round (min 2 (max (- 2) (square_coefficients 2)) * 1000) / 1000 = 0"
  "Math_round (min 2 (max (- 2) (square_coefficients 3)) * 1000) / 1000 = 0.424"
  "Math_round (min 2 (max (- 2) (square_coefficients 4)) * 1000) / 1000 = 0"
  "Math_round (min 2 (max (- 2) (square_coefficients 5)) * 1000) / 1000 = 0.255"
proof -
  have p: "2 \<le> pi" by (rule pi_ge_two)
  have b1: "- 2 \<le> 4 / pi" "4 / pi \<le> 2" using p by (simp_all add: field_simps)
  have b3: "- 2 \<le> 4 / (pi * 3)" "4 / (pi * 3) \<le> 2" using p by (simp_all add: field_simps)
  have b5: "- 2 \<le> 4 / (pi * 5)" "4 / (pi * 5) \<le> 2" using p by (simp_all add: field_simps)
  show "Math_round (min 2 (max (- 2) (square_coefficients 1)) * 1000) / 1000 = 1.273"
    using ideal_round [OF b1, of 1273] four_over_pi(1,2)
    by (simp add: square_coefficients_def js_rem_int_two)
  show "Math_round (min 2 (max (- 2) (square_coefficients 3)) * 1000) / 1000 = 0.424"
    using ideal_round [OF b3, of 424] four_over_pi(3,4)
    by (simp add: square_coefficients_def js_rem_int_two)
  show "Math_round (min 2 (max (- 2) (square_coefficients 5)) * 1000) / 1000 = 0.255"
    using ideal_round [OF b5, of 255] four_over_pi(5,6)
    by (simp add: square_coefficients_def js_rem_int_two)
  show "Math_round (min 2 (max (- 2) (square_coefficients 2)) * 1000) / 1000 = 0"
    "Math_round (min 2 (max (- 2) (square_coefficients 4)) * 1000) / 1000 = 0"
    by (simp_all add: square_coefficients_def js_rem_int_two Math_round_def)
qed

text \<open>
  Claim C3. The ideal-coefficients transition sets the amplitude of each harmonic
  \<open>n = 1..5\<close> to the active waveform's coefficient, clamped to \<open>[-2, 2]\<close> and then
  rounded to three decimals; for the square wave the new amplitude vector is
  \<open>[1.273, 0, 0.424, 0, 0.255]\<close>. The selected waveform key stays as it was.
\<close>

theorem showIdeal_amplitudes:
  "length (amplitudes (showIdeal st)) = 5
   \<and> (\<forall>i<5. amplitudes (showIdeal st) ! i =
         Math_round (min 2 (max (- 2) (coefficients (WAVE_TYPES (waveType st)) (int i + 1))) * 1000)
           / 1000)
   \<and> (waveType st = Square \<longrightarrow> amplitudes (showIdeal st) = [1.273, 0, 0.424, 0, 0.255])
   \<and> waveType (showIdeal st) = waveType st"
proof -
  have l: "length (amplitudes (showIdeal st)) = 5"
    by (simp add: showIdeal_def)
  have e: "amplitudes (showIdeal st) ! i =
         Math_round (min 2 (max (- 2) (coefficients (WAVE_TYPES (waveType st)) (int i + 1))) * 1000)
           / 1000" if "i < 5" for i
  proof -
    from that have "i = 0 \<or> i = 1 \<or> i = 2 \<or> i = 3 \<or> i = 4" by presburger
    then show ?thesis
      by (auto simp: showIdeal_def wave_def)
  qed
  have s: "amplitudes (showIdeal st) = [1.273, 0, 0.424, 0, 0.255]" if "waveType st = Square"
    using that by (simp add: showIdeal_def wave_def square_ideal_values)
  have k: "waveType (showIdeal st) = waveType st"
    by (simp add: showIdeal_def)
  from l e s k show ?thesis by blast
qed

theorem showIdeal_amplitudes_witness:
  "amplitudes (showIdeal initial_state) = [1.273, 0, 0.424, 0, 0.255]
   \<and> amplitudes (showIdeal initial_state) ! 2 =
       Math_round (min 2 (max (- 2) (coefficients (WAVE_TYPES Square) 3)) * 1000) / 1000
   \<and> waveType (showIdeal initial_state) = Square"
proof -
  note t = showIdeal_amplitudes [of initial_state]
  have w: "waveType initial_state = Square" by (simp add: initial_state_def)
  from t w have a: "amplitudes (showIdeal initial_state) = [1.273, 0, 0.424, 0, 0.255]"
    by simp
  from t have "(2::nat) < 5 \<longrightarrow> amplitudes (showIdeal initial_state) ! 2 =
         Math_round (min 2 (max (- 2) (coefficients (WAVE_TYPES (waveType initial_state)) (int 2 + 1))) * 1000)
           / 1000" by blast
  then have b: "amplitudes (showIdeal initial_state) ! 2 =
       Math_round (min 2 (max (- 2) (coefficients (WAVE_TYPES Square) 3)) * 1000) / 1000"
    using w by simp
  from t w have c: "waveType (showIdeal initial_state) = Square" by simp
  from a b c show ?thesis by blast
qed

lemma coefficient_bound:
  fixes n :: int
  assumes "1 \<le> n" "n \<le> 5"
  shows "\<bar>coefficients (WAVE_TYPES w) n\<bar> \<le> 4 / pi"
proof -
  from assms have c: "n = 1 \<or> n = 2 \<or> n = 3 \<or> n = 4 \<or> n = 5"
    by (rule harmonic_cases)
  have p: "2 \<le> pi" by (rule pi_ge_two)
  have q: "4 \<le> pi * pi" using p mult_mono [of 2 pi 2 pi] by simp
  show ?thesis
  proof (cases w)
    case Square
    with c p show ?thesis
      by (auto simp: square_coefficients_def js_rem_int_two field_simps)
  next
    case Sawtooth
    with c p show ?thesis
      by (auto simp: sawtooth_coefficients_def Math_pow_minus_one field_simps)
  next
    case Triangle
    with c p q show ?thesis
      by (auto simp: triangle_coefficients_def js_rem_int_two Math_pow_minus_one field_simps)
  qed
qed

lemma four_over_pi_le_two: "4 / pi \<le> 2"
  using pi_ge_two by (simp add: field_simps)

text \<open>
  Claim C10. For each waveform and every \<open>n\<close> from 1 to 5 the coefficient has
  magnitude at most \<open>2\<close>, the largest being the square wave's \<open>4/pi\<close> at \<open>n = 1\<close>;
  so the clamp in the ideal-coefficients transition changes nothing, and the stored
  amplitude is the coefficient itself rounded to three decimals.
\<close>

theorem ideal_clamp_noop:
  fixes n :: int
  assumes "1 \<le> n" and "n \<le> 5"
  shows "\<bar>coefficients (WAVE_TYPES w) n\<bar> \<le> \<bar>coefficients (WAVE_TYPES Square) 1\<bar>
    \<and> coefficients (WAVE_TYPES Square) 1 = 4 / pi
    \<and> \<bar>coefficients (WAVE_TYPES w) n\<bar> \<le> 2
    \<and> min 2 (max (- 2) (coefficients (WAVE_TYPES w) n)) = coefficients (WAVE_TYPES w) n
    \<and> (waveType st = w \<longrightarrow>
         amplitudes (showIdeal st) =
           map (\<lambda>n. Math_round (coefficients (WAVE_TYPES w) n * 1000) / 1000) [1, 2, 3, 4, 5])"
proof -
  have s1: "coefficients (WAVE_TYPES Square) 1 = 4 / pi"
    by (simp add: square_coefficients_def js_rem_int_two)
  have b: "\<bar>coefficients (WAVE_TYPES w) m\<bar> \<le> 2" if "1 \<le> m" "m \<le> 5" for m :: int
    using coefficient_bound [OF that, of w] four_over_pi_le_two by simp
  have c: "min 2 (max (- 2) (coefficients (WAVE_TYPES w) m)) = coefficients (WAVE_TYPES w) m"
    if "1 \<le> m" "m \<le> 5" for m :: int
    using b [OF that] by (simp add: abs_le_iff)
  have s2: "\<bar>coefficients (WAVE_TYPES Square) 1\<bar> = 4 / pi"
    unfolding s1 by simp
  have a: "\<bar>coefficients (WAVE_TYPES w) n\<bar> \<le> \<bar>coefficients (WAVE_TYPES Square) 1\<bar>"
    unfolding s2 using assms by (rule coefficient_bound)
  have d: "amplitudes (showIdeal st) =
           map (\<lambda>n. Math_round (coefficients (WAVE_TYPES w) n * 1000) / 1000) [1, 2, 3, 4, 5]"
    if "waveType st = w"
    using that c [of 1] c [of 2] c [of 3] c [of 4] c [of 5]
    by (simp add: showIdeal_def wave_def)
  from a s1 b [OF assms] c [OF assms] d show ?thesis
    by blast
qed

theorem ideal_clamp_noop_witness:
  "(1::int) \<le> 3 \<and> (3::int) \<le> 5
   \<and> \<bar>coefficients (WAVE_TYPES Triangle) 3\<bar> \<le> 4 / pi
   \<and> \<bar>coefficients (WAVE_TYPES Triangle) 3\<bar> \<le> 2
   \<and> waveType (setWaveType Triangle initial_state) = Triangle
   \<and> amplitudes (showIdeal (setWaveType Triangle initial_state)) =
       map (\<lambda>n. Math_round (coefficients (WAVE_TYPES Triangle) n * 1000) / 1000) [1, 2, 3, 4, 5]"
proof -
  have h: "(1::int) \<le> 3" "(3::int) \<le> 5"
    by simp_all
  have k: "waveType (setWaveType Triangle initial_state) = Triangle"
    by (simp add: setWaveType_def)
  note t = ideal_clamp_noop [OF h, of Triangle "setWaveType Triangle initial_state"]
  from t have x: "\<bar>coefficients (WAVE_TYPES Triangle) 3\<bar> \<le> \<bar>coefficients (WAVE_TYPES Square) 1\<bar>"
    and y: "coefficients (WAVE_TYPES Square) 1 = 4 / pi"
    by blast+
  have "\<bar>4 / pi\<bar> = 4 / pi"
    by simp
  with x have a: "\<bar>coefficients (WAVE_TYPES Triangle) 3\<bar> \<le> 4 / pi"
    unfolding y by (simp only:)
  from t have b: "\<bar>coefficients (WAVE_TYPES Triangle) 3\<bar> \<le> 2"
    by blast
  from t k have c: "amplitudes (showIdeal (setWaveType Triangle initial_state)) =
       map (\<lambda>n. Math_round (coefficients (WAVE_TYPES Triangle) n * 1000) / 1000) [1, 2, 3, 4, 5]"
    by blast
  from h k a b c show ?thesis by blast
qed

section \<open>Sampler and series evaluator\<close>

lemma generateXValues_loop_eq:
  "i \<le> NUM_POINTS + 1 \<Longrightarrow>
   generateXValues_loop i xs =
     xs @ map (\<lambda>k. (real k / real NUM_POINTS) * 2 * pi) [i..<NUM_POINTS + 1]"
proof (induction i xs rule: generateXValues_loop.induct)
  case (1 i xs)
  show ?case
  proof (cases "i \<le> NUM_POINTS")
    case True
    then have u: "[i..<NUM_POINTS + 1] = i # [i + 1..<NUM_POINTS + 1]"
      by (simp add: upt_conv_Cons)
    from True have "generateXValues_loop i xs =
        generateXValues_loop (i + 1) (xs @ [(real i / real NUM_POINTS) * 2 * pi])"
      by (subst generateXValues_loop.simps) simp
    also from True have "\<dots> = (xs @ [(real i / real NUM_POINTS) * 2 * pi]) @
        map (\<lambda>k. (real k / real NUM_POINTS) * 2 * pi) [i + 1..<NUM_POINTS + 1]"
      by (intro "1.IH") simp_all
    finally show ?thesis
      by (simp only: u list.map append.simps append_assoc)
  next
    case False
    with "1.prems" have "i = NUM_POINTS + 1" by simp
    with False show ?thesis
      by (subst generateXValues_loop.simps) simp
  qed
qed

lemma X_VALUES_eq: "X_VALUES = map (\<lambda>i. (real i / 500) * (2 * pi)) [0..<501]"
proof -
  have "X_VALUES = map (\<lambda>k. (real k / real NUM_POINTS) * 2 * pi) [0..<NUM_POINTS + 1]"
    unfolding X_VALUES_def generateXValues_def
    by (subst generateXValues_loop_eq) simp_all
  then show ?thesis by (simp add: NUM_POINTS_def mult_ac)
qed

lemma length_X_VALUES: "length X_VALUES = 501"
  by (simp add: X_VALUES_eq)

lemma sum_forEach_eq:
  "sum_forEach x amps i y = y + (\<Sum>j<length amps. amps ! j * sin (real (i + j + 1) * x))"
proof (induction amps arbitrary: i y)
  case Nil
  show ?case by simp
next
  case (Cons amp amps)
  have "(\<Sum>j<length (amp # amps). (amp # amps) ! j * sin (real (i + j + 1) * x))
      = amp * sin (real (i + 1) * x)
        + (\<Sum>j<length amps. amps ! j * sin (real (i + 1 + j + 1) * x))"
    by (simp add: sum.lessThan_Suc_shift del: sum.lessThan_Suc)
  with Cons.IH [of "i + 1" "y + amp * sin (real (i + 1) * x)"] show ?case
    by simp
qed

lemma sumData_eq:
  "sumData amps =
     map (\<lambda>i. let x = (real i / 500) * (2 * pi)
              in \<lparr>pt_x = x, pt_y = (\<Sum>j<length amps. amps ! j * sin (real (j + 1) * x))\<rparr>)
         [0..<501]"
  by (simp add: sumData_def X_VALUES_eq sum_forEach_eq Let_def)

text \<open>
  Claim C6. Whatever the amplitudes are, the sum chart gets exactly one dataset, whose
  data is \<open>sumData\<close>. Its samples follow the shared grid \<open>xs[i] = (i/500) 2 pi\<close>,
  \<open>i = 0..500\<close> (501 points), in grid order, and the sample at \<open>xs[i]\<close> is the sum over
  \<open>j = 0..4\<close> of \<open>a[j] sin((j+1) xs[i])\<close>. For the all-zero amplitude vector every
  sample value is \<open>0\<close>.
\<close>

theorem sumData_samples:
  "(\<exists>ds. sumChartDatasets amps = [ds] \<and> data ds = sumData amps)
   \<and> X_VALUES = map (\<lambda>i. (real i / 500) * (2 * pi)) [0..<501]
   \<and> length (sumData amps) = 501
   \<and> sumData [a0, a1, a2, a3, a4] =
       map (\<lambda>i. let x = (real i / 500) * (2 * pi)
                in \<lparr>pt_x = x,
                    pt_y = (\<Sum>j<5. [a0, a1, a2, a3, a4] ! j * sin (real (j + 1) * x))\<rparr>)
           [0..<501]
   \<and> map pt_y (sumData [0, 0, 0, 0, 0]) = replicate 501 0"
proof -
  have a: "\<exists>ds. sumChartDatasets amps = [ds] \<and> data ds = sumData amps"
    by (simp add: sumChartDatasets_def)
  have b: "length (sumData amps) = 501"
    by (simp add: sumData_def length_X_VALUES)
  have c: "sumData [a0, a1, a2, a3, a4] =
       map (\<lambda>i. let x = (real i / 500) * (2 * pi)
                in \<lparr>pt_x = x,
                    pt_y = (\<Sum>j<5. [a0, a1, a2, a3, a4] ! j * sin (real (j + 1) * x))\<rparr>)
           [0..<501]"
  proof -
    have l: "length [a0, a1, a2, a3, a4] = 5"
      by simp
    show ?thesis
      by (rule sumData_eq [of "[a0, a1, a2, a3, a4]", unfolded l])
  qed
  have "map pt_y (sumData [0, 0, 0, 0, 0]) = map (\<lambda>x. 0) X_VALUES"
    by (simp add: sumData_def)
  then have d: "map pt_y (sumData [0, 0, 0, 0, 0]) = replicate 501 0"
    by (simp add: map_replicate_const length_X_VALUES)
  from a X_VALUES_eq b c d show ?thesis
    by blast
qed

subsection \<open>The significance threshold\<close>



















section \<open>Coordinate mapping and gridlines\<close>

lemma toSVGY_ends:
  assumes "yMin < yMax"
  shows "toSVGY h yMin yMax yMax = pad_top padding"
    and "toSVGY h yMin yMax yMin = pad_top padding + plotH h"
  using assms by (simp_all add: toSVGY_def)

lemma path_sy_bounds:
  assumes "yMin < yMax" "0 \<le> plotH h"
  shows "pad_top padding \<le> path_sy h yMin yMax pt"
    and "path_sy h yMin yMax pt \<le> pad_top padding + plotH h"
proof -
  define c where "c = max yMin (min yMax (pt_y pt))"
  from assms(1) have c: "yMin \<le> c" "c \<le> yMax" by (simp_all add: c_def)
  from c assms(1) have "0 \<le> (yMax - c) / (yMax - yMin)" by simp
  then have "0 \<le> (yMax - c) / (yMax - yMin) * plotH h"
    using assms(2) by (rule mult_nonneg_nonneg)
  then show "pad_top padding \<le> path_sy h yMin yMax pt"
    by (simp add: path_sy_def toSVGY_def c_def)
  from c assms(1) have "(yMax - c) / (yMax - yMin) \<le> 1" by simp
  then have "(yMax - c) / (yMax - yMin) * plotH h \<le> 1 * plotH h"
    using assms(2) by (rule mult_right_mono)
  then show "path_sy h yMin yMax pt \<le> pad_top padding + plotH h"
    by (simp add: path_sy_def toSVGY_def c_def)
qed

text \<open>
  Claim C8. For a view range \<open>yMin < yMax\<close>: \<open>toX(x) = left + (x / 2 pi) plotWidth\<close> and
  \<open>toY(y) = top + ((yMax - y) / (yMax - yMin)) plotHeight\<close>, and a data point's \<open>y\<close> is
  clamped to the view range before it is mapped. So \<open>toX(0) = left\<close>,
  \<open>toX(2 pi) = left + plotWidth\<close>, \<open>toY(yMax) = top\<close>, \<open>toY(yMin) = top + plotHeight\<close>;
  with the range \<open>[-2.2, 2.2]\<close> a value of \<open>3.0\<close> is drawn on the row of \<open>2.2\<close>; values
  beyond the range are drawn on the boundary rows, and every drawn row lies between
  \<open>top\<close> and \<open>top + plotHeight\<close>.
\<close>

theorem coordinate_mapping:
  assumes "yMin < yMax"
  shows "toSVGX w x = pad_left padding + (x / (2 * pi)) * plotW w
    \<and> toSVGY h yMin yMax y = pad_top padding + ((yMax - y) / (yMax - yMin)) * plotH h
    \<and> path_sy h yMin yMax pt = toSVGY h yMin yMax (max yMin (min yMax (pt_y pt)))
    \<and> toSVGX w 0 = pad_left padding
    \<and> toSVGX w (2 * pi) = pad_left padding + plotW w
    \<and> toSVGY h yMin yMax yMax = pad_top padding
    \<and> toSVGY h yMin yMax yMin = pad_top padding + plotH h
    \<and> path_sy h (- 2.2) 2.2 \<lparr>pt_x = x, pt_y = 3.0\<rparr> = path_sy h (- 2.2) 2.2 \<lparr>pt_x = x, pt_y = 2.2\<rparr>
    \<and> (yMax \<le> pt_y pt \<longrightarrow> path_sy h yMin yMax pt = toSVGY h yMin yMax yMax)
    \<and> (pt_y pt \<le> yMin \<longrightarrow> path_sy h yMin yMax pt = toSVGY h yMin yMax yMin)
    \<and> (0 \<le> plotH h \<longrightarrow>
         pad_top padding \<le> path_sy h yMin yMax pt
         \<and> path_sy h yMin yMax pt \<le> pad_top padding + plotH h)"
proof -
  have a: "toSVGX w 0 = pad_left padding" "toSVGX w (2 * pi) = pad_left padding + plotW w"
    by (simp_all add: toSVGX_def)
  have b: "path_sy h (- 2.2) 2.2 \<lparr>pt_x = x, pt_y = 3.0\<rparr>
      = path_sy h (- 2.2) 2.2 \<lparr>pt_x = x, pt_y = 2.2\<rparr>"
    by (simp add: path_sy_def)
  have c: "yMax \<le> pt_y pt \<longrightarrow> path_sy h yMin yMax pt = toSVGY h yMin yMax yMax"
    using assms by (simp add: path_sy_def min_absorb1 max_absorb2)
  have d: "pt_y pt \<le> yMin \<longrightarrow> path_sy h yMin yMax pt = toSVGY h yMin yMax yMin"
    using assms by (simp add: path_sy_def min_absorb2 max_absorb1)
  from a b c d toSVGY_ends [OF assms, of h] path_sy_bounds [OF assms, of h pt]
  show ?thesis
    by (simp add: toSVGX_def toSVGY_def path_sy_def)
qed

theorem coordinate_mapping_witness:
  "(- 2.2 :: real) < 2.2 \<and> (0::real) \<le> plotH 220
   \<and> toSVGY 220 (- 2.2) 2.2 2.2 = 40
   \<and> toSVGY 220 (- 2.2) 2.2 (- 2.2) = 176
   \<and> (2.2::real) \<le> pt_y \<lparr>pt_x = 0, pt_y = 3\<rparr>
   \<and> path_sy 220 (- 2.2) 2.2 \<lparr>pt_x = 0, pt_y = 3\<rparr> = 40
   \<and> pt_y \<lparr>pt_x = 0, pt_y = - 5\<rparr> \<le> (- 2.2 :: real)
   \<and> path_sy 220 (- 2.2) 2.2 \<lparr>pt_x = 0, pt_y = - 5\<rparr> = 176"
proof -
  have h: "(- 2.2 :: real) < 2.2" by simp
  have p: "plotH 220 = 136" "pad_top padding = 40"
    by (simp_all add: plotH_def padding_def)
  note t1 = coordinate_mapping [OF h, of 800 0 220 0 "\<lparr>pt_x = 0, pt_y = 3\<rparr>"]
  note t2 = coordinate_mapping [OF h, of 800 0 220 0 "\<lparr>pt_x = 0, pt_y = - 5\<rparr>"]
  from t1 have a: "toSVGY 220 (- 2.2) 2.2 2.2 = 40" "toSVGY 220 (- 2.2) 2.2 (- 2.2) = 176"
    by (simp_all add: p)
  from t1 have "(2.2::real) \<le> pt_y \<lparr>pt_x = 0, pt_y = 3\<rparr> \<longrightarrow>
      path_sy 220 (- 2.2) 2.2 \<lparr>pt_x = 0, pt_y = 3\<rparr> = toSVGY 220 (- 2.2) 2.2 2.2"
    by blast
  with a have b: "path_sy 220 (- 2.2) 2.2 \<lparr>pt_x = 0, pt_y = 3\<rparr> = 40"
    by simp
  from t2 have "pt_y \<lparr>pt_x = 0, pt_y = - 5\<rparr> \<le> (- 2.2 :: real) \<longrightarrow>
      path_sy 220 (- 2.2) 2.2 \<lparr>pt_x = 0, pt_y = - 5\<rparr> = toSVGY 220 (- 2.2) 2.2 (- 2.2)"
    by blast
  with a have c: "path_sy 220 (- 2.2) 2.2 \<lparr>pt_x = 0, pt_y = - 5\<rparr> = 176"
    by simp
  from h p a b c show ?thesis by simp
qed

lemma yTicks_view: "yTicks (- 2.2) 2.2 = [- 2.2, - 1.7, - 1.2, - 0.7, - 0.2, 0.3, 0.8, 1.3, 1.8]"
  by (simp add: yTicks_def yTicks_loop.simps Math_round_def)

text \<open>On a range that starts at an integer the ticks do fall on the integers and the
  filter labels exactly those.\<close>

lemma yTicks_integer_range:
  "yTicks (- 2) 2 = [- 2, - 1.5, - 1, - 0.5, 0, 0.5, 1, 1.5, 2]"
  by (simp add: yTicks_def yTicks_loop.simps Math_round_def)

lemma yLabelTicks_integer_range: "yLabelTicks (- 2) 2 = [- 2, - 1, 0, 1, 2]"
  unfolding yLabelTicks_def yTicks_integer_range by (simp add: Math_round_def)

text \<open>
  Claim C9 says that with the view range \<open>[-2.2, 2.2]\<close> a horizontal gridline lies at each
  of the integers \<open>-2, -1, 0, 1, 2\<close> and that exactly those gridlines carry labels. The
  code's ticks for that range step by \<open>0.5\<close> from \<open>-2.2\<close>: they are
  \<open>-2.2, -1.7, -1.2, -0.7, -0.2, 0.3, 0.8, 1.3, 1.8\<close>; none of them is an integer, and the
  integer filter leaves no tick to label.
\<close>

theorem gridlines_view_range:
  "yTicks (- 2.2) 2.2 = [- 2.2, - 1.7, - 1.2, - 0.7, - 0.2, 0.3, 0.8, 1.3, 1.8]
   \<and> set (yTicks (- 2.2) 2.2) \<inter> {- 2, - 1, 0, 1, 2} = {}
   \<and> yLabelTicks (- 2.2) 2.2 = []"
  unfolding yLabelTicks_def yTicks_view by (simp add: Math_round_def)

section \<open>The equation string\<close>










end
